theory Spec2Isabelle
  imports Main
begin

section \<open>Kubernetes API types used by the webhook\<close>

text \<open>
  The handler of \<^verbatim>\<open>cmd/root.go\<close> works on a handful of structs of the Kubernetes API
  packages. Each struct is a record holding the fields the handler reads or writes; byte
  slices and Go strings are both \<^typ>\<open>string\<close>. Field names are those of the Go structs,
  with a prefix where two structs share a field name.
\<close>

text \<open>\<^verbatim>\<open>metav1.GroupVersionResource\<close>: Go compares it field by field with \<^verbatim>\<open>!=\<close>.\<close>

record GroupVersionResource =
  Group :: string
  Version :: string
  Resource :: string

text \<open>\<^verbatim>\<open>schema.GroupVersion\<close> and \<^verbatim>\<open>schema.GroupVersionKind\<close>.\<close>

record GroupVersion =
  gv_Group :: string
  gv_Version :: string

record GroupVersionKind =
  gvk_Group :: string
  gvk_Version :: string
  gvk_Kind :: string

text \<open>\<^verbatim>\<open>metav1.TypeMeta\<close>, embedded in every API object.\<close>

record TypeMeta =
  Kind :: string
  APIVersion :: string

text \<open>\<^verbatim>\<open>metav1.Status\<close>: the handler only ever sets \<^verbatim>\<open>Message\<close>.\<close>

record Status =
  Message :: string

text \<open>
  \<^verbatim>\<open>admissionv1.AdmissionRequest\<close>: \<^verbatim>\<open>UID\<close>, \<^verbatim>\<open>Resource\<close> and \<^verbatim>\<open>Object.Raw\<close> are the
  fields the handler reads.
\<close>

record AdmissionRequest =
  Request_UID :: string
  Request_Resource :: GroupVersionResource
  Request_Object_Raw :: string

text \<open>
  \<^verbatim>\<open>admissionv1.AdmissionResponse\<close>: \<^verbatim>\<open>Result\<close> is a pointer (\<open>None\<close> is nil), \<^verbatim>\<open>Warnings\<close>
  a slice (nil and empty are both \<open>[]\<close>).
\<close>

record AdmissionResponse =
  Response_UID :: string
  Allowed :: bool
  Result :: "Status option"
  Warnings :: "string list"

text \<open>
  \<^verbatim>\<open>admissionv1.AdmissionReview\<close> embeds \<^verbatim>\<open>TypeMeta\<close>; \<^verbatim>\<open>Request\<close> and \<^verbatim>\<open>Response\<close> are
  pointers, nil when the JSON document has no such member.
\<close>

record AdmissionReview = TypeMeta +
  Request :: "AdmissionRequest option"
  Response :: "AdmissionResponse option"

text \<open>
  \<^verbatim>\<open>corev1.Pod\<close>: only \<^verbatim>\<open>Labels\<close> is read. Looking a key up in a nil Go map reports the key
  as absent, as the empty map does.
\<close>

record Pod =
  Labels :: "string \<rightharpoonup> string"

section \<open>Group, version and kind of an object\<close>

text \<open>
  Line 138 of \<^verbatim>\<open>cmd/root.go\<close> moves the type information from the request to the response
  with \<^verbatim>\<open>SetGroupVersionKind(admissionReviewRequest.GroupVersionKind())\<close>. Both methods
  are those of the embedded \<^verbatim>\<open>TypeMeta\<close> (package \<^verbatim>\<open>k8s.io/apimachinery/pkg/apis/meta/v1\<close>),
  which go through \<^verbatim>\<open>k8s.io/apimachinery/pkg/runtime/schema\<close>:
  \<^verbatim>\<open>
  func ParseGroupVersion(gv string) (GroupVersion, error) {
      if (len(gv) == 0) || (gv == "/") { return GroupVersion{}, nil }
      switch strings.Count(gv, "/") {
      case 0:  return GroupVersion{"", gv}, nil
      case 1:  i := strings.Index(gv, "/")
               return GroupVersion{gv[:i], gv[i+1:]}, nil
      default: return GroupVersion{}, fmt.Errorf("unexpected GroupVersion string: %v", gv)
      }
  }
  func (gv GroupVersion) String() string {
      if len(gv.Group) > 0 { return gv.Group + "/" + gv.Version }
      return gv.Version
  }
  func FromAPIVersionAndKind(apiVersion, kind string) GroupVersionKind {
      if gv, err := ParseGroupVersion(apiVersion); err == nil {
          return GroupVersionKind{Group: gv.Group, Version: gv.Version, Kind: kind}
      }
      return GroupVersionKind{Kind: kind}
  }
  func (gvk GroupVersionKind) Empty() bool {
      return len(gvk.Group) == 0 && len(gvk.Version) == 0 && len(gvk.Kind) == 0
  }
  func (gvk GroupVersionKind) ToAPIVersionAndKind() (string, string) {
      if gvk.Empty() { return "", "" }
      return gvk.GroupVersion().String(), gvk.Kind
  }
  func (obj *TypeMeta) SetGroupVersionKind(gvk schema.GroupVersionKind) {
      obj.APIVersion, obj.Kind = gvk.ToAPIVersionAndKind()
  }
  func (obj *TypeMeta) GroupVersionKind() schema.GroupVersionKind {
      return schema.FromAPIVersionAndKind(obj.APIVersion, obj.Kind)
  }
  \<close>
\<close>

definition ParseGroupVersion :: "string \<Rightarrow> string + GroupVersion" where
  "ParseGroupVersion gv =
     (if length gv = 0 \<or> gv = ''/'' then Inr \<lparr>gv_Group = [], gv_Version = []\<rparr>
      else if count_list gv (CHR ''/'') = 0 then Inr \<lparr>gv_Group = [], gv_Version = gv\<rparr>
      else if count_list gv (CHR ''/'') = 1 then
        Inr \<lparr>gv_Group = takeWhile (\<lambda>c. c \<noteq> CHR ''/'') gv,
             gv_Version = tl (dropWhile (\<lambda>c. c \<noteq> CHR ''/'') gv)\<rparr>
      else Inl (''unexpected GroupVersion string: '' @ gv))"

definition GroupVersion_String :: "GroupVersion \<Rightarrow> string" where
  "GroupVersion_String gv =
     (if length (gv_Group gv) > 0 then gv_Group gv @ ''/'' @ gv_Version gv
      else gv_Version gv)"

definition FromAPIVersionAndKind :: "string \<Rightarrow> string \<Rightarrow> GroupVersionKind" where
  "FromAPIVersionAndKind apiVersion kind =
     (case ParseGroupVersion apiVersion of
        Inr gv \<Rightarrow> \<lparr>gvk_Group = gv_Group gv, gvk_Version = gv_Version gv, gvk_Kind = kind\<rparr>
      | Inl err \<Rightarrow> \<lparr>gvk_Group = [], gvk_Version = [], gvk_Kind = kind\<rparr>)"

definition Empty :: "GroupVersionKind \<Rightarrow> bool" where
  "Empty gvk \<longleftrightarrow> length (gvk_Group gvk) = 0 \<and> length (gvk_Version gvk) = 0
     \<and> length (gvk_Kind gvk) = 0"

definition ToAPIVersionAndKind :: "GroupVersionKind \<Rightarrow> string \<times> string" where
  "ToAPIVersionAndKind gvk =
     (if Empty gvk then ([], [])
      else (GroupVersion_String \<lparr>gv_Group = gvk_Group gvk, gv_Version = gvk_Version gvk\<rparr>,
            gvk_Kind gvk))"

definition TypeMeta_GroupVersionKind :: "'a TypeMeta_scheme \<Rightarrow> GroupVersionKind" where
  "TypeMeta_GroupVersionKind obj = FromAPIVersionAndKind (APIVersion obj) (Kind obj)"

definition TypeMeta_SetGroupVersionKind ::
  "GroupVersionKind \<Rightarrow> 'a TypeMeta_scheme \<Rightarrow> 'a TypeMeta_scheme" where
  "TypeMeta_SetGroupVersionKind gvk obj =
     obj\<lparr>APIVersion := fst (ToAPIVersionAndKind gvk), Kind := snd (ToAPIVersionAndKind gvk)\<rparr>"

section \<open>The HTTP request and the response writer\<close>

text \<open>
  Of \<^verbatim>\<open>http.Request\<close> the handler reads the header and the body. \<^verbatim>\<open>Body\<close> is \<open>None\<close> for a
  nil body; otherwise it holds what \<^verbatim>\<open>ioutil.ReadAll\<close> gives: the bytes, or the message of
  a read error.
\<close>

record Request_http =
  Header :: "string \<rightharpoonup> string list"
  Body :: "(string + string) option"

text \<open>\<^verbatim>\<open>Header.Get\<close>: the first value stored under the key, the empty string when none.\<close>

definition Header_Get :: "(string \<rightharpoonup> string list) \<Rightarrow> string \<Rightarrow> string" where
  "Header_Get h key = (case h key of None \<Rightarrow> [] | Some [] \<Rightarrow> [] | Some (v # vs) \<Rightarrow> v)"

text \<open>
  \<^verbatim>\<open>http.ResponseWriter\<close>: the status line is sent once, by \<^verbatim>\<open>WriteHeader\<close> or by the first
  \<^verbatim>\<open>Write\<close> (then with status 200); headers set after that are not sent.
\<close>

record ResponseWriter =
  rw_header :: "string \<rightharpoonup> string"
  rw_status :: "nat option"
  rw_body :: string

definition newResponseWriter :: ResponseWriter where
  "newResponseWriter = \<lparr>rw_header = Map.empty, rw_status = None, rw_body = []\<rparr>"

definition Header_Set :: "string \<Rightarrow> string \<Rightarrow> ResponseWriter \<Rightarrow> ResponseWriter" where
  "Header_Set key v w =
     (if rw_status w = None then w\<lparr>rw_header := (rw_header w)(key \<mapsto> v)\<rparr> else w)"

definition WriteHeader :: "nat \<Rightarrow> ResponseWriter \<Rightarrow> ResponseWriter" where
  "WriteHeader code w = (if rw_status w = None then w\<lparr>rw_status := Some code\<rparr> else w)"

definition Write :: "string \<Rightarrow> ResponseWriter \<Rightarrow> ResponseWriter" where
  "Write bs w = (let w' = WriteHeader 200 w in w'\<lparr>rw_body := rw_body w' @ bs\<rparr>)"

section \<open>The deserializer and the handler's effects\<close>

text \<open>
  \<^verbatim>\<open>deserializer.Decode(data, nil, into)\<close> is called with two targets, an
  \<^verbatim>\<open>AdmissionReview\<close> and a \<^verbatim>\<open>Pod\<close>. The deserializer is a parameter of the model: one
  function for each target, giving the decoded object or the error's message.
\<close>

record Decoder =
  decode_AdmissionReview :: "string \<Rightarrow> string + AdmissionReview"
  decode_Pod :: "string \<Rightarrow> string + Pod"

text \<open>Each call of \<^verbatim>\<open>Decode\<close> is recorded, with its target and the bytes it was given.\<close>

datatype decode_call = DecodeAdmissionReview string | DecodePod string

text \<open>
  What a run of the handler leaves behind: the response writer and the calls of the
  deserializer, in order. The handler either returns or panics; on a panic
  \<^verbatim>\<open>net/http\<close> aborts the connection and sends nothing more. (The log lines written to
  standard output are not modelled.)
\<close>

record effects =
  writer :: ResponseWriter
  decoded :: "decode_call list"

datatype completion = Returned | Panicked

section \<open>The handler\<close>

text \<open>\<^verbatim>\<open>admissionReviewFromRequest\<close>, lines 56 to 80.\<close>

definition admissionReviewFromRequest ::
  "Request_http \<Rightarrow> Decoder \<Rightarrow> (string + AdmissionReview) \<times> decode_call list" where
  "admissionReviewFromRequest r deserializer =
     (if Header_Get (Header r) ''Content-Type'' \<noteq> ''application/json''
      then (Inl ''expected application/json content-type'', [])
      else
        (case (case Body r of None \<Rightarrow> Inr [] | Some requestData \<Rightarrow> requestData) of
           Inl err \<Rightarrow> (Inl err, [])
         | Inr body \<Rightarrow>
             (decode_AdmissionReview deserializer body, [DecodeAdmissionReview body])))"

definition podResource :: GroupVersionResource where
  "podResource = \<lparr>Group = [], Version = ''v1'', Resource = ''pods''\<rparr>"

text \<open>Lines 123 to 133: the response for a decoded pod, from its \<^verbatim>\<open>hello\<close> label.\<close>

definition admissionResponse :: "Pod \<Rightarrow> AdmissionResponse" where
  "admissionResponse pod =
     (let admissionResponse =
            \<lparr>Response_UID = [], Allowed = True, Result = None, Warnings = []\<rparr>
      in case Labels pod ''hello'' of
           None \<Rightarrow>
             admissionResponse
               \<lparr>Allowed := False,
                Result := Some \<lparr>Message = ''missing required hello label''\<rparr>\<rparr>
         | Some v \<Rightarrow>
             if v = ''world''
             then admissionResponse
                    \<lparr>Warnings := [''world will be deprecated for hello in the future'']\<rparr>
             else admissionResponse)"

text \<open>
  Lines 136 to 139: the response envelope, a fresh \<^verbatim>\<open>AdmissionReview\<close> holding the response,
  given the type information of the request envelope and the UID of the request.
\<close>

definition admissionReviewResponse ::
  "AdmissionReview \<Rightarrow> AdmissionRequest \<Rightarrow> Pod \<Rightarrow> AdmissionReview" where
  "admissionReviewResponse admissionReviewRequest request pod =
     (let r0 = \<lparr>Kind = [], APIVersion = [], Request = None,
                Response = Some (admissionResponse pod)\<rparr>;
          r1 = TypeMeta_SetGroupVersionKind
                 (TypeMeta_GroupVersionKind admissionReviewRequest) r0
      in r1\<lparr>Response := map_option (\<lambda>resp. resp\<lparr>Response_UID := Request_UID request\<rparr>)
                           (Response r1)\<rparr>)"

text \<open>
  \<^verbatim>\<open>validatePod\<close>, lines 82 to 152. \<^verbatim>\<open>marshal\<close> stands for \<^verbatim>\<open>json.Marshal\<close> on the response
  envelope. Reading a field through the nil \<^verbatim>\<open>Request\<close> pointer on line 101 panics.
\<close>

definition validatePod ::
  "Decoder \<Rightarrow> (AdmissionReview \<Rightarrow> string + string) \<Rightarrow> ResponseWriter \<Rightarrow> Request_http
     \<Rightarrow> completion \<times> effects" where
  "validatePod deserializer marshal w r =
     (case admissionReviewFromRequest r deserializer of
        (Inl err, calls) \<Rightarrow>
          (let msg = ''error getting admission review from request: '' @ err
           in (Returned, \<lparr>writer = Write msg (WriteHeader 400 w), decoded = calls\<rparr>))
      | (Inr admissionReviewRequest, calls) \<Rightarrow>
          (case Request admissionReviewRequest of
             None \<Rightarrow> (Panicked, \<lparr>writer = w, decoded = calls\<rparr>)
           | Some request \<Rightarrow>
               if Request_Resource request \<noteq> podResource
               then
                 (let msg = ''did not receive pod, got ''
                              @ Resource (Request_Resource request)
                  in (Returned, \<lparr>writer = Write msg (WriteHeader 400 w), decoded = calls\<rparr>))
               else
                 (let rawRequest = Request_Object_Raw request;
                      calls' = calls @ [DecodePod rawRequest]
                  in case decode_Pod deserializer rawRequest of
                       Inl err \<Rightarrow>
                         (let msg = ''error decoding raw pod: '' @ err
                          in (Returned,
                              \<lparr>writer = Write msg (WriteHeader 500 w), decoded = calls'\<rparr>))
                     | Inr pod \<Rightarrow>
                         (case marshal (admissionReviewResponse admissionReviewRequest
                                          request pod) of
                            Inl err \<Rightarrow>
                              (let msg = ''error marshalling response json: '' @ err
                               in (Returned,
                                   \<lparr>writer = Write msg (WriteHeader 500 w),
                                    decoded = calls'\<rparr>))
                          | Inr resp \<Rightarrow>
                              (Returned,
                               \<lparr>writer = Write resp
                                           (Header_Set ''Content-Type'' ''application/json'' w),
                                decoded = calls'\<rparr>)))))"

section \<open>Stand-ins for the deserializer and the marshaller\<close>

text \<open>
  Concrete runs of the handler need a concrete deserializer. \<open>table_decoder\<close> accepts
  exactly the documents listed in its two tables and rejects every other input with a
  parse error; \<open>render\<close> writes an envelope as a line of text, and \<open>json_request\<close> is a
  request with the JSON content type and the given body.
\<close>

definition table_decoder :: "(string \<times> AdmissionReview) list \<Rightarrow> (string \<times> Pod) list \<Rightarrow> Decoder" where
  "table_decoder reviews pods =
     \<lparr>decode_AdmissionReview =
        (\<lambda>data. case map_of reviews data of
                  None \<Rightarrow> Inl ''json parse error''
                | Some review \<Rightarrow> Inr review),
      decode_Pod =
        (\<lambda>data. case map_of pods data of
                  None \<Rightarrow> Inl ''json parse error''
                | Some pod \<Rightarrow> Inr pod)\<rparr>"

definition render :: "AdmissionReview \<Rightarrow> string + string" where
  "render review =
     Inr (APIVersion review @ '' '' @ Kind review @ '' '' @
          (case Response review of
             None \<Rightarrow> ''null''
           | Some resp \<Rightarrow>
               Response_UID resp @ (if Allowed resp then '' allowed'' else '' denied'')))"

definition json_request :: "string \<Rightarrow> Request_http" where
  "json_request body =
     \<lparr>Header = [''Content-Type'' \<mapsto> [''application/json'']], Body = Some (Inr body)\<rparr>"

definition text_request :: "string \<Rightarrow> Request_http" where
  "text_request body =
     \<lparr>Header = [''Content-Type'' \<mapsto> [''text/plain'']], Body = Some (Inr body)\<rparr>"

definition review_of :: "string \<Rightarrow> AdmissionRequest option \<Rightarrow> AdmissionReview" where
  "review_of apiVersion request =
     \<lparr>Kind = ''AdmissionReview'', APIVersion = apiVersion, Request = request,
      Response = None\<rparr>"

definition request_of :: "GroupVersionResource \<Rightarrow> AdmissionRequest" where
  "request_of resource =
     \<lparr>Request_UID = ''705ab4f5'', Request_Resource = resource, Request_Object_Raw = ''POD''\<rparr>"

definition deploymentResource :: GroupVersionResource where
  "deploymentResource = \<lparr>Group = ''apps'', Version = ''v1'', Resource = ''deployments''\<rparr>"

text \<open>A triple that differs from the pod triple in its group only.\<close>

definition appsPodsResource :: GroupVersionResource where
  "appsPodsResource = \<lparr>Group = ''apps'', Version = ''v1'', Resource = ''pods''\<rparr>"

text \<open>\<open>mentions body word\<close>: the word occurs in the body as a contiguous run of characters.\<close>

fun mentions :: "string \<Rightarrow> string \<Rightarrow> bool" where
  "mentions [] word = (word = [])"
| "mentions (c # cs) word = (take (length word) (c # cs) = word \<or> mentions cs word)"

definition pod_without_hello :: Pod where
  "pod_without_hello = \<lparr>Labels = [''app'' \<mapsto> ''web'']\<rparr>"

definition pod_hello :: "string \<Rightarrow> Pod" where
  "pod_hello v = \<lparr>Labels = [''app'' \<mapsto> ''web'', ''hello'' \<mapsto> v]\<rparr>"

text \<open>
  A deserializer that knows one envelope document, \<^verbatim>\<open>REVIEW\<close>, and one pod document,
  \<^verbatim>\<open>POD\<close>.
\<close>

definition decoder_for :: "AdmissionReview \<Rightarrow> Pod \<Rightarrow> Decoder" where
  "decoder_for review pod = table_decoder [(''REVIEW'', review)] [(''POD'', pod)]"

text \<open>The same, with no pod document: \<^verbatim>\<open>POD\<close> does not decode.\<close>

definition decoder_without_pod :: "AdmissionReview \<Rightarrow> Decoder" where
  "decoder_without_pod review = table_decoder [(''REVIEW'', review)] []"

section \<open>Auxiliary facts\<close>

text \<open>The type information survives the trip through \<^verbatim>\<open>GroupVersionKind\<close> as follows.\<close>

lemma kind_round_trip: "snd (ToAPIVersionAndKind (FromAPIVersionAndKind av k)) = k"
  by (auto simp: ToAPIVersionAndKind_def FromAPIVersionAndKind_def Empty_def
      split: sum.splits)

lemma split_at_slash:
  "CHR ''/'' \<in> set av \<Longrightarrow>
   takeWhile (\<lambda>c. c \<noteq> CHR ''/'') av @ CHR ''/'' # tl (dropWhile (\<lambda>c. c \<noteq> CHR ''/'') av) = av"
  by (induction av) auto

lemma count_list_mem: "count_list av c \<noteq> 0 \<Longrightarrow> c \<in> set av"
  by (induction av) (auto split: if_splits)

lemma apiVersion_no_slash:
  "count_list av (CHR ''/'') = 0 \<Longrightarrow>
   fst (ToAPIVersionAndKind (FromAPIVersionAndKind av k)) = av"
  by (cases av)
     (auto simp: ToAPIVersionAndKind_def FromAPIVersionAndKind_def Empty_def
        ParseGroupVersion_def GroupVersion_String_def split: if_splits)

lemma apiVersion_group_and_version:
  assumes "count_list av (CHR ''/'') = 1" and "hd av \<noteq> CHR ''/''"
  shows "fst (ToAPIVersionAndKind (FromAPIVersionAndKind av k)) = av"
proof -
  from assms(1) have mem: "CHR ''/'' \<in> set av"
    by (intro count_list_mem) simp
  then obtain c cs where av: "av = c # cs"
    by (cases av) auto
  with assms(2) have c: "c \<noteq> CHR ''/''"
    by simp
  have parse: "ParseGroupVersion av =
      Inr \<lparr>gv_Group = takeWhile (\<lambda>c. c \<noteq> CHR ''/'') av,
           gv_Version = tl (dropWhile (\<lambda>c. c \<noteq> CHR ''/'') av)\<rparr>"
    using assms(1) av c by (simp add: ParseGroupVersion_def)
  have grp: "takeWhile (\<lambda>c. c \<noteq> CHR ''/'') av \<noteq> []"
    using av c by simp
  show ?thesis
    using parse grp split_at_slash [OF mem]
    by (simp add: ToAPIVersionAndKind_def FromAPIVersionAndKind_def Empty_def
        GroupVersion_String_def)
qed

lemma apiVersion_leading_slash:
  assumes "count_list av (CHR ''/'') = 1" and "hd av = CHR ''/''"
  shows "fst (ToAPIVersionAndKind (FromAPIVersionAndKind av k)) \<noteq> av"
proof -
  from assms obtain cs where av: "av = CHR ''/'' # cs"
    by (cases av) auto
  show ?thesis
    using assms(1) unfolding av
    by (cases cs)
       (auto simp: ToAPIVersionAndKind_def FromAPIVersionAndKind_def Empty_def
        ParseGroupVersion_def GroupVersion_String_def split: if_splits)
qed

lemma apiVersion_many_slashes:
  assumes "count_list av (CHR ''/'') \<noteq> 0" and "count_list av (CHR ''/'') \<noteq> 1"
  shows "fst (ToAPIVersionAndKind (FromAPIVersionAndKind av k)) \<noteq> av"
proof -
  from assms(1) have "av \<noteq> []"
    by auto
  moreover from assms have "av \<noteq> ''/''"
    by auto
  ultimately show ?thesis
    using assms
    by (auto simp: ToAPIVersionAndKind_def FromAPIVersionAndKind_def Empty_def
        ParseGroupVersion_def GroupVersion_String_def)
qed

lemma apiVersion_round_trip:
  "fst (ToAPIVersionAndKind (FromAPIVersionAndKind av k)) = av \<longleftrightarrow>
     count_list av (CHR ''/'') = 0 \<or> (count_list av (CHR ''/'') = 1 \<and> hd av \<noteq> CHR ''/'')"
  using apiVersion_no_slash [of av k] apiVersion_group_and_version [of av k]
    apiVersion_leading_slash [of av k] apiVersion_many_slashes [of av k]
  by blast

text \<open>The fields of the response envelope.\<close>

lemma envelope_Response:
  "Response (admissionReviewResponse rv rq pod) =
     Some ((admissionResponse pod)\<lparr>Response_UID := Request_UID rq\<rparr>)"
  by (simp add: admissionReviewResponse_def TypeMeta_SetGroupVersionKind_def)

lemma envelope_Kind: "Kind (admissionReviewResponse rv rq pod) = Kind rv"
  by (simp add: admissionReviewResponse_def TypeMeta_SetGroupVersionKind_def
      TypeMeta_GroupVersionKind_def kind_round_trip)

lemma envelope_APIVersion:
  "APIVersion (admissionReviewResponse rv rq pod) =
     fst (ToAPIVersionAndKind (FromAPIVersionAndKind (APIVersion rv) (Kind rv)))"
  by (simp add: admissionReviewResponse_def TypeMeta_SetGroupVersionKind_def
      TypeMeta_GroupVersionKind_def)

text \<open>Decoding the envelope never calls the deserializer with a pod as its target.\<close>

lemma envelope_calls:
  "admissionReviewFromRequest r d = (res, calls) \<Longrightarrow> DecodePod raw \<notin> set calls"
  by (auto simp: admissionReviewFromRequest_def split: if_splits sum.splits)

text \<open>The handler's paths, one lemma for each way it ends.\<close>

lemma validatePod_envelope_error:
  "admissionReviewFromRequest r d = (Inl err, calls) \<Longrightarrow>
   validatePod d m w r =
     (Returned,
      \<lparr>writer = Write (''error getting admission review from request: '' @ err)
                  (WriteHeader 400 w),
       decoded = calls\<rparr>)"
  by (simp add: validatePod_def)

lemma validatePod_nil_request:
  "admissionReviewFromRequest r d = (Inr rv, calls) \<Longrightarrow> Request rv = None \<Longrightarrow>
   validatePod d m w r = (Panicked, \<lparr>writer = w, decoded = calls\<rparr>)"
  by (simp add: validatePod_def)

lemma validatePod_not_pod:
  "admissionReviewFromRequest r d = (Inr rv, calls) \<Longrightarrow> Request rv = Some rq \<Longrightarrow>
   Request_Resource rq \<noteq> podResource \<Longrightarrow>
   validatePod d m w r =
     (Returned,
      \<lparr>writer = Write (''did not receive pod, got '' @ Resource (Request_Resource rq))
                  (WriteHeader 400 w),
       decoded = calls\<rparr>)"
  by (simp add: validatePod_def)

lemma validatePod_pod_error:
  "admissionReviewFromRequest r d = (Inr rv, calls) \<Longrightarrow> Request rv = Some rq \<Longrightarrow>
   Request_Resource rq = podResource \<Longrightarrow>
   decode_Pod d (Request_Object_Raw rq) = Inl err \<Longrightarrow>
   validatePod d m w r =
     (Returned,
      \<lparr>writer = Write (''error decoding raw pod: '' @ err) (WriteHeader 500 w),
       decoded = calls @ [DecodePod (Request_Object_Raw rq)]\<rparr>)"
  by (simp add: validatePod_def Let_def)

lemma validatePod_evaluated:
  "admissionReviewFromRequest r d = (Inr rv, calls) \<Longrightarrow> Request rv = Some rq \<Longrightarrow>
   Request_Resource rq = podResource \<Longrightarrow>
   decode_Pod d (Request_Object_Raw rq) = Inr pod \<Longrightarrow>
   validatePod d m w r =
     (Returned,
      \<lparr>writer =
         (case m (admissionReviewResponse rv rq pod) of
            Inl err \<Rightarrow> Write (''error marshalling response json: '' @ err) (WriteHeader 500 w)
          | Inr resp \<Rightarrow> Write resp (Header_Set ''Content-Type'' ''application/json'' w)),
       decoded = calls @ [DecodePod (Request_Object_Raw rq)]\<rparr>)"
  by (simp add: validatePod_def Let_def split: sum.splits)

text \<open>What the writer holds after an error reply and after a JSON reply.\<close>

lemma error_reply:
  "Write msg (WriteHeader code newResponseWriter) =
     \<lparr>rw_header = Map.empty, rw_status = Some code, rw_body = msg\<rparr>"
  by (simp add: Write_def WriteHeader_def newResponseWriter_def)

lemma json_reply:
  "Write resp (Header_Set ''Content-Type'' ''application/json'' newResponseWriter) =
     \<lparr>rw_header = [''Content-Type'' \<mapsto> ''application/json''], rw_status = Some 200,
      rw_body = resp\<rparr>"
  by (simp add: Write_def WriteHeader_def Header_Set_def newResponseWriter_def)

text \<open>The stand-in deserializer on the two documents it knows.\<close>

lemma decoder_for_request:
  "admissionReviewFromRequest (json_request ''REVIEW'') (decoder_for rv pod) =
     (Inr rv, [DecodeAdmissionReview ''REVIEW''])"
  by (simp add: admissionReviewFromRequest_def json_request_def decoder_for_def
      table_decoder_def Header_Get_def)

lemma decoder_for_pod: "decode_Pod (decoder_for rv pod) ''POD'' = Inr pod"
  by (simp add: decoder_for_def table_decoder_def)

lemma decoder_without_pod_request:
  "admissionReviewFromRequest (json_request ''REVIEW'') (decoder_without_pod rv) =
     (Inr rv, [DecodeAdmissionReview ''REVIEW''])"
  by (simp add: admissionReviewFromRequest_def json_request_def decoder_without_pod_def
      table_decoder_def Header_Get_def)

section \<open>The label policy\<close>

text \<open>
  C1. A pod whose labels do not contain the key \<^verbatim>\<open>hello\<close> is denied: \<^verbatim>\<open>Allowed\<close> is false,
  the status message is exactly \<^verbatim>\<open>missing required hello label\<close>, and there are no
  warnings. The response envelope carries this verdict.
\<close>

theorem missing_hello_label_denied:
  assumes "Labels pod ''hello'' = None"
  shows "Allowed (admissionResponse pod) = False
       \<and> Result (admissionResponse pod) = Some \<lparr>Message = ''missing required hello label''\<rparr>
       \<and> Warnings (admissionResponse pod) = []
       \<and> Response (admissionReviewResponse rv rq pod) =
           Some \<lparr>Response_UID = Request_UID rq, Allowed = False,
                 Result = Some \<lparr>Message = ''missing required hello label''\<rparr>,
                 Warnings = []\<rparr>"
  using assms by (simp add: envelope_Response admissionResponse_def)

theorem missing_hello_label_denied_witness:
  "Labels pod_without_hello ''hello'' = None
   \<and> Allowed (admissionResponse pod_without_hello) = False
   \<and> Result (admissionResponse pod_without_hello) =
       Some \<lparr>Message = ''missing required hello label''\<rparr>
   \<and> Warnings (admissionResponse pod_without_hello) = []"
  using missing_hello_label_denied [of pod_without_hello]
  by (simp add: pod_without_hello_def)

text \<open>
  C2. A pod whose label \<^verbatim>\<open>hello\<close> is exactly \<^verbatim>\<open>world\<close> is allowed, with no status message
  and the single warning \<^verbatim>\<open>world will be deprecated for hello in the future\<close>.
\<close>

theorem hello_world_allowed_with_warning:
  assumes "Labels pod ''hello'' = Some ''world''"
  shows "Allowed (admissionResponse pod) = True
       \<and> Result (admissionResponse pod) = None
       \<and> Warnings (admissionResponse pod) =
           [''world will be deprecated for hello in the future'']
       \<and> Response (admissionReviewResponse rv rq pod) =
           Some \<lparr>Response_UID = Request_UID rq, Allowed = True, Result = None,
                 Warnings = [''world will be deprecated for hello in the future'']\<rparr>"
  using assms by (simp add: envelope_Response admissionResponse_def)

theorem hello_world_allowed_with_warning_witness:
  "Labels (pod_hello ''world'') ''hello'' = Some ''world''
   \<and> Allowed (admissionResponse (pod_hello ''world'')) = True
   \<and> Result (admissionResponse (pod_hello ''world'')) = None
   \<and> Warnings (admissionResponse (pod_hello ''world'')) =
       [''world will be deprecated for hello in the future'']"
  using hello_world_allowed_with_warning [of "pod_hello ''world''"]
  by (simp add: pod_hello_def)

text \<open>
  C3. A pod whose label \<^verbatim>\<open>hello\<close> has any value other than \<^verbatim>\<open>world\<close> (the comparison is
  exact, so \<^verbatim>\<open>World\<close> and the empty string are such values) is allowed, with no status
  message and no warnings.
\<close>

theorem hello_other_value_allowed:
  assumes "Labels pod ''hello'' = Some v" and "v \<noteq> ''world''"
  shows "Allowed (admissionResponse pod) = True
       \<and> Result (admissionResponse pod) = None
       \<and> Warnings (admissionResponse pod) = []
       \<and> Response (admissionReviewResponse rv rq pod) =
           Some \<lparr>Response_UID = Request_UID rq, Allowed = True, Result = None,
                 Warnings = []\<rparr>"
  using assms by (simp add: envelope_Response admissionResponse_def)

theorem hello_other_value_allowed_witness:
  "(Labels (pod_hello []) ''hello'' = Some [] \<and> [] \<noteq> ''world''
    \<and> Allowed (admissionResponse (pod_hello [])) = True
    \<and> Result (admissionResponse (pod_hello [])) = None
    \<and> Warnings (admissionResponse (pod_hello [])) = [])
   \<and> (Labels (pod_hello ''World'') ''hello'' = Some ''World'' \<and> ''World'' \<noteq> ''world''
    \<and> Allowed (admissionResponse (pod_hello ''World'')) = True
    \<and> Result (admissionResponse (pod_hello ''World'')) = None
    \<and> Warnings (admissionResponse (pod_hello ''World'')) = [])"
  using hello_other_value_allowed [of "pod_hello []" "[]"]
    hello_other_value_allowed [of "pod_hello ''World''" "''World''"]
  by (simp add: pod_hello_def)

text \<open>
  C9. For every pod, the verdict has a status message if and only if it is a denial.
\<close>

theorem message_iff_denied:
  "(Result (admissionResponse pod) \<noteq> None) = (\<not> Allowed (admissionResponse pod))"
  by (cases "Labels pod ''hello''") (simp_all add: admissionResponse_def Let_def)

section \<open>The response envelope\<close>

text \<open>
  C4, as amended. For every request with a valid envelope and a decodable pod, the handler
  returns after handing the response envelope to the marshaller; the UID of the response
  is the UID of the request, the kind of the envelope is the kind of the inbound envelope,
  and its apiVersion is the inbound apiVersion exactly when the inbound apiVersion has no
  \<^verbatim>\<open>/\<close>, or has one \<^verbatim>\<open>/\<close> that is not its first character (as \<^verbatim>\<open>admission.k8s.io/v1\<close> has).
\<close>

theorem response_correlates_with_request:
  assumes "admissionReviewFromRequest r d = (Inr rv, calls)"
    and "Request rv = Some rq"
    and "Request_Resource rq = podResource"
    and "decode_Pod d (Request_Object_Raw rq) = Inr pod"
  shows "validatePod d marshal newResponseWriter r =
           (Returned,
            \<lparr>writer =
               (case marshal (admissionReviewResponse rv rq pod) of
                  Inl err \<Rightarrow>
                    \<lparr>rw_header = Map.empty, rw_status = Some 500,
                     rw_body = ''error marshalling response json: '' @ err\<rparr>
                | Inr resp \<Rightarrow>
                    \<lparr>rw_header = [''Content-Type'' \<mapsto> ''application/json''],
                     rw_status = Some 200, rw_body = resp\<rparr>),
             decoded = calls @ [DecodePod (Request_Object_Raw rq)]\<rparr>)
       \<and> map_option Response_UID (Response (admissionReviewResponse rv rq pod)) =
           Some (Request_UID rq)
       \<and> Kind (admissionReviewResponse rv rq pod) = Kind rv
       \<and> (APIVersion (admissionReviewResponse rv rq pod) = APIVersion rv \<longleftrightarrow>
            count_list (APIVersion rv) (CHR ''/'') = 0
            \<or> (count_list (APIVersion rv) (CHR ''/'') = 1 \<and> hd (APIVersion rv) \<noteq> CHR ''/''))"
proof -
  have "validatePod d marshal newResponseWriter r =
           (Returned,
            \<lparr>writer =
               (case marshal (admissionReviewResponse rv rq pod) of
                  Inl err \<Rightarrow>
                    \<lparr>rw_header = Map.empty, rw_status = Some 500,
                     rw_body = ''error marshalling response json: '' @ err\<rparr>
                | Inr resp \<Rightarrow>
                    \<lparr>rw_header = [''Content-Type'' \<mapsto> ''application/json''],
                     rw_status = Some 200, rw_body = resp\<rparr>),
             decoded = calls @ [DecodePod (Request_Object_Raw rq)]\<rparr>)"
    unfolding validatePod_evaluated [OF assms]
    by (simp add: error_reply json_reply split: sum.splits)
  moreover have "map_option Response_UID (Response (admissionReviewResponse rv rq pod)) =
           Some (Request_UID rq)"
    by (simp add: envelope_Response)
  moreover note envelope_Kind [of rv rq pod]
  moreover have "APIVersion (admissionReviewResponse rv rq pod) = APIVersion rv \<longleftrightarrow>
            count_list (APIVersion rv) (CHR ''/'') = 0
            \<or> (count_list (APIVersion rv) (CHR ''/'') = 1 \<and> hd (APIVersion rv) \<noteq> CHR ''/'')"
    unfolding envelope_APIVersion by (rule apiVersion_round_trip)
  ultimately show ?thesis
    by blast
qed

theorem response_correlates_with_request_witness:
  "validatePod
     (decoder_for (review_of ''admission.k8s.io/v1'' (Some (request_of podResource)))
        (pod_hello ''world''))
     render newResponseWriter (json_request ''REVIEW'') =
     (Returned,
      \<lparr>writer =
         \<lparr>rw_header = [''Content-Type'' \<mapsto> ''application/json''], rw_status = Some 200,
          rw_body = ''admission.k8s.io/v1 AdmissionReview 705ab4f5 allowed''\<rparr>,
       decoded = [DecodeAdmissionReview ''REVIEW'', DecodePod ''POD'']\<rparr>)
   \<and> APIVersion
       (admissionReviewResponse
          (review_of ''admission.k8s.io/v1'' (Some (request_of podResource)))
          (request_of podResource) (pod_hello ''world'')) = ''admission.k8s.io/v1''
   \<and> Kind
       (admissionReviewResponse
          (review_of ''admission.k8s.io/v1'' (Some (request_of podResource)))
          (request_of podResource) (pod_hello ''world'')) = ''AdmissionReview''
   \<and> map_option Response_UID
       (Response
         (admissionReviewResponse
            (review_of ''admission.k8s.io/v1'' (Some (request_of podResource)))
            (request_of podResource) (pod_hello ''world''))) = Some ''705ab4f5''"
proof -
  let ?rq = "request_of podResource"
  let ?rv = "review_of ''admission.k8s.io/v1'' (Some ?rq)"
  let ?pod = "pod_hello ''world''"
  have h1: "admissionReviewFromRequest (json_request ''REVIEW'') (decoder_for ?rv ?pod) =
      (Inr ?rv, [DecodeAdmissionReview ''REVIEW''])"
    by (rule decoder_for_request)
  have h2: "Request ?rv = Some ?rq"
    by (simp add: review_of_def)
  have h3: "Request_Resource ?rq = podResource"
    by (simp add: request_of_def)
  have h4: "decode_Pod (decoder_for ?rv ?pod) (Request_Object_Raw ?rq) = Inr ?pod"
    by (simp add: request_of_def decoder_for_pod)
  have av: "APIVersion ?rv = ''admission.k8s.io/v1''" and k: "Kind ?rv = ''AdmissionReview''"
    by (simp_all add: review_of_def)
  have uid: "Request_UID ?rq = ''705ab4f5''" and raw: "Request_Object_Raw ?rq = ''POD''"
    by (simp_all add: request_of_def)
  have r: "render (admissionReviewResponse ?rv ?rq ?pod) =
      Inr ''admission.k8s.io/v1 AdmissionReview 705ab4f5 allowed''"
    using response_correlates_with_request [OF h1 h2 h3 h4, of render]
    by (simp add: render_def envelope_Response admissionResponse_def pod_hello_def av k uid)
  show ?thesis
    using response_correlates_with_request [OF h1 h2 h3 h4, of render]
    by (simp add: r av k uid raw)
qed

text \<open>
  The claim as first stated (the apiVersion of the response always equals that of the
  inbound envelope) fails: an envelope with apiVersion \<^verbatim>\<open>/v1\<close> is answered, with status
  200, by an envelope with apiVersion \<^verbatim>\<open>v1\<close>.
\<close>

theorem response_apiVersion_counterexample:
  "validatePod
     (decoder_for (review_of ''/v1'' (Some (request_of podResource))) (pod_hello ''world''))
     render newResponseWriter (json_request ''REVIEW'') =
     (Returned,
      \<lparr>writer =
         \<lparr>rw_header = [''Content-Type'' \<mapsto> ''application/json''], rw_status = Some 200,
          rw_body = ''v1 AdmissionReview 705ab4f5 allowed''\<rparr>,
       decoded = [DecodeAdmissionReview ''REVIEW'', DecodePod ''POD'']\<rparr>)
   \<and> APIVersion (review_of ''/v1'' (Some (request_of podResource))) = ''/v1''
   \<and> APIVersion
       (admissionReviewResponse (review_of ''/v1'' (Some (request_of podResource)))
          (request_of podResource) (pod_hello ''world'')) = ''v1''
   \<and> APIVersion
       (admissionReviewResponse (review_of ''/v1'' (Some (request_of podResource)))
          (request_of podResource) (pod_hello ''world''))
       \<noteq> APIVersion (review_of ''/v1'' (Some (request_of podResource)))"
proof -
  let ?rq = "request_of podResource"
  let ?rv = "review_of ''/v1'' (Some ?rq)"
  let ?pod = "pod_hello ''world''"
  have av: "APIVersion ?rv = ''/v1''" and k: "Kind ?rv = ''AdmissionReview''"
    by (simp_all add: review_of_def)
  have e: "APIVersion (admissionReviewResponse ?rv ?rq ?pod) = ''v1''"
    unfolding envelope_APIVersion av k
    by (simp add: ToAPIVersionAndKind_def FromAPIVersionAndKind_def Empty_def
        ParseGroupVersion_def GroupVersion_String_def)
  have r: "render (admissionReviewResponse ?rv ?rq ?pod) =
      Inr ''v1 AdmissionReview 705ab4f5 allowed''"
    unfolding render_def e envelope_Kind k envelope_Response
    by (simp add: admissionResponse_def pod_hello_def request_of_def)
  have "validatePod (decoder_for ?rv ?pod) render newResponseWriter (json_request ''REVIEW'') =
     (Returned,
      \<lparr>writer =
         \<lparr>rw_header = [''Content-Type'' \<mapsto> ''application/json''], rw_status = Some 200,
          rw_body = ''v1 AdmissionReview 705ab4f5 allowed''\<rparr>,
       decoded = [DecodeAdmissionReview ''REVIEW'', DecodePod ''POD'']\<rparr>)"
  proof -
    have h2: "Request ?rv = Some ?rq"
      by (simp add: review_of_def)
    have h3: "Request_Resource ?rq = podResource" and raw: "Request_Object_Raw ?rq = ''POD''"
      by (simp_all add: request_of_def)
    have h4: "decode_Pod (decoder_for ?rv ?pod) (Request_Object_Raw ?rq) = Inr ?pod"
      by (simp add: raw decoder_for_pod)
    show ?thesis
      unfolding validatePod_evaluated [OF decoder_for_request h2 h3 h4]
      by (simp add: r raw json_reply)
  qed
  with av e show ?thesis
    by simp
qed

section \<open>Status codes and error replies\<close>

text \<open>
  C5. A request whose \<^verbatim>\<open>Content-Type\<close> header is not exactly \<^verbatim>\<open>application/json\<close> is
  answered with status 400, and the deserializer is never called: neither the envelope
  nor an embedded object is decoded.
\<close>

theorem wrong_content_type_rejected:
  assumes "Header_Get (Header r) ''Content-Type'' \<noteq> ''application/json''"
  shows "validatePod d m newResponseWriter r =
           (Returned,
            \<lparr>writer =
               \<lparr>rw_header = Map.empty, rw_status = Some 400,
                rw_body = ''error getting admission review from request: ''
                          @ ''expected application/json content-type''\<rparr>,
             decoded = []\<rparr>)"
proof -
  from assms have "admissionReviewFromRequest r d =
      (Inl ''expected application/json content-type'', [])"
    by (simp add: admissionReviewFromRequest_def)
  then show ?thesis
    by (simp add: validatePod_envelope_error error_reply)
qed

theorem wrong_content_type_rejected_witness:
  "Header_Get (Header (text_request ''REVIEW'')) ''Content-Type'' \<noteq> ''application/json''
   \<and> validatePod
       (decoder_for (review_of ''admission.k8s.io/v1'' (Some (request_of podResource)))
          (pod_hello ''world''))
       render newResponseWriter (text_request ''REVIEW'') =
       (Returned,
        \<lparr>writer =
           \<lparr>rw_header = Map.empty, rw_status = Some 400,
            rw_body = ''error getting admission review from request: ''
                      @ ''expected application/json content-type''\<rparr>,
         decoded = []\<rparr>)"
proof -
  have h: "Header_Get (Header (text_request ''REVIEW'')) ''Content-Type''
      \<noteq> ''application/json''"
    by (simp add: text_request_def Header_Get_def)
  show ?thesis
    using h wrong_content_type_rejected [OF h] by simp
qed

text \<open>
  C6, as amended. When the envelope decodes and the resource triple of its request is not
  exactly (\<^verbatim>\<open>""\<close>, \<^verbatim>\<open>v1\<close>, \<^verbatim>\<open>pods\<close>), the handler answers with status 400, the body is
  \<^verbatim>\<open>did not receive pod, got\<close> followed by the resource name of the triple it received
  (the group and the version of the triple are not part of the body), and the deserializer
  is never called with a pod as its target.
\<close>

theorem other_resource_rejected:
  assumes "admissionReviewFromRequest r d = (Inr rv, calls)"
    and "Request rv = Some rq"
    and "Request_Resource rq \<noteq> podResource"
  shows "validatePod d m newResponseWriter r =
           (Returned,
            \<lparr>writer =
               \<lparr>rw_header = Map.empty, rw_status = Some 400,
                rw_body = ''did not receive pod, got '' @ Resource (Request_Resource rq)\<rparr>,
             decoded = calls\<rparr>)
       \<and> (\<forall>raw. DecodePod raw \<notin> set calls)"
  using validatePod_not_pod [OF assms] envelope_calls [OF assms(1)]
  by (simp add: error_reply)

theorem other_resource_rejected_witness:
  "Request_Resource (request_of deploymentResource) \<noteq> podResource
   \<and> validatePod
       (decoder_for (review_of ''admission.k8s.io/v1'' (Some (request_of deploymentResource)))
          (pod_hello ''world''))
       render newResponseWriter (json_request ''REVIEW'') =
       (Returned,
        \<lparr>writer =
           \<lparr>rw_header = Map.empty, rw_status = Some 400,
            rw_body = ''did not receive pod, got deployments''\<rparr>,
         decoded = [DecodeAdmissionReview ''REVIEW'']\<rparr>)"
proof -
  let ?rq = "request_of deploymentResource"
  let ?rv = "review_of ''admission.k8s.io/v1'' (Some ?rq)"
  have h2: "Request ?rv = Some ?rq"
    by (simp add: review_of_def)
  have h3: "Request_Resource ?rq \<noteq> podResource"
    by (simp add: request_of_def deploymentResource_def podResource_def)
  have name: "Resource (Request_Resource ?rq) = ''deployments''"
    by (simp add: request_of_def deploymentResource_def)
  show ?thesis
    using h3 other_resource_rejected [OF decoder_for_request h2 h3, of "pod_hello ''world''" render]
    by (simp add: name)
qed

text \<open>
  The claim as first stated (the body includes the unexpected type) fails for a triple
  that differs from the pod triple in its group or version only: the triple
  (\<^verbatim>\<open>apps\<close>, \<^verbatim>\<open>v1\<close>, \<^verbatim>\<open>pods\<close>) is answered with \<^verbatim>\<open>did not receive pod, got pods\<close>, which
  names the expected resource and does not mention the group that made the triple
  unexpected.
\<close>

theorem other_resource_body_counterexample:
  "Request_Resource (request_of appsPodsResource) \<noteq> podResource
   \<and> Resource (Request_Resource (request_of appsPodsResource)) = Resource podResource
   \<and> validatePod
       (decoder_for (review_of ''admission.k8s.io/v1'' (Some (request_of appsPodsResource)))
          (pod_hello ''world''))
       render newResponseWriter (json_request ''REVIEW'') =
       (Returned,
        \<lparr>writer =
           \<lparr>rw_header = Map.empty, rw_status = Some 400,
            rw_body = ''did not receive pod, got pods''\<rparr>,
         decoded = [DecodeAdmissionReview ''REVIEW'']\<rparr>)
   \<and> \<not> mentions ''did not receive pod, got pods'' ''apps''"
proof -
  let ?rq = "request_of appsPodsResource"
  let ?rv = "review_of ''admission.k8s.io/v1'' (Some ?rq)"
  have h2: "Request ?rv = Some ?rq"
    by (simp add: review_of_def)
  have h3: "Request_Resource ?rq \<noteq> podResource"
    by (simp add: request_of_def appsPodsResource_def podResource_def)
  have name: "Resource (Request_Resource ?rq) = ''pods''"
    by (simp add: request_of_def appsPodsResource_def)
  have same: "Resource (Request_Resource ?rq) = Resource podResource"
    by (simp add: name podResource_def)
  have run: "validatePod (decoder_for ?rv (pod_hello ''world'')) render newResponseWriter
      (json_request ''REVIEW'') =
      (Returned,
       \<lparr>writer =
          \<lparr>rw_header = Map.empty, rw_status = Some 400,
           rw_body = ''did not receive pod, got pods''\<rparr>,
        decoded = [DecodeAdmissionReview ''REVIEW'']\<rparr>)"
    unfolding validatePod_not_pod [OF decoder_for_request h2 h3]
    by (simp add: name error_reply)
  have silent: "\<not> mentions ''did not receive pod, got pods'' ''apps''"
    by simp
  from h3 same run silent show ?thesis
    by blast
qed

text \<open>
  C7. Every request that is evaluated (the envelope decodes, its resource is the pod
  resource, the pod decodes and the response is marshalled) is answered with status 200
  and the marshalled response, whether the verdict allows or denies.
\<close>

theorem evaluated_request_is_200:
  assumes "admissionReviewFromRequest r d = (Inr rv, calls)"
    and "Request rv = Some rq"
    and "Request_Resource rq = podResource"
    and "decode_Pod d (Request_Object_Raw rq) = Inr pod"
    and "marshal (admissionReviewResponse rv rq pod) = Inr resp"
  shows "fst (validatePod d marshal newResponseWriter r) = Returned
       \<and> rw_status (writer (snd (validatePod d marshal newResponseWriter r))) = Some 200
       \<and> rw_body (writer (snd (validatePod d marshal newResponseWriter r))) = resp"
  unfolding validatePod_evaluated [OF assms(1-4)]
  by (simp add: assms(5) json_reply)

theorem evaluated_request_is_200_witness:
  "Allowed (admissionResponse pod_without_hello) = False
   \<and> fst (validatePod
       (decoder_for (review_of ''admission.k8s.io/v1'' (Some (request_of podResource)))
          pod_without_hello)
       render newResponseWriter (json_request ''REVIEW'')) = Returned
   \<and> rw_status (writer (snd (validatePod
       (decoder_for (review_of ''admission.k8s.io/v1'' (Some (request_of podResource)))
          pod_without_hello)
       render newResponseWriter (json_request ''REVIEW'')))) = Some 200
   \<and> rw_body (writer (snd (validatePod
       (decoder_for (review_of ''admission.k8s.io/v1'' (Some (request_of podResource)))
          pod_without_hello)
       render newResponseWriter (json_request ''REVIEW'')))) =
       ''admission.k8s.io/v1 AdmissionReview 705ab4f5 denied''"
proof -
  let ?rq = "request_of podResource"
  let ?rv = "review_of ''admission.k8s.io/v1'' (Some ?rq)"
  let ?pod = "pod_without_hello"
  have h2: "Request ?rv = Some ?rq"
    by (simp add: review_of_def)
  have h3: "Request_Resource ?rq = podResource" and raw: "Request_Object_Raw ?rq = ''POD''"
    by (simp_all add: request_of_def)
  have h4: "decode_Pod (decoder_for ?rv ?pod) (Request_Object_Raw ?rq) = Inr ?pod"
    by (simp add: raw decoder_for_pod)
  have av: "APIVersion ?rv = ''admission.k8s.io/v1''" and k: "Kind ?rv = ''AdmissionReview''"
    by (simp_all add: review_of_def)
  have e: "APIVersion (admissionReviewResponse ?rv ?rq ?pod) = ''admission.k8s.io/v1''"
    unfolding envelope_APIVersion av k
    by (simp add: ToAPIVersionAndKind_def FromAPIVersionAndKind_def Empty_def
        ParseGroupVersion_def GroupVersion_String_def)
  have deny: "Allowed (admissionResponse ?pod) = False"
    by (simp add: admissionResponse_def pod_without_hello_def)
  have h5: "render (admissionReviewResponse ?rv ?rq ?pod) =
      Inr ''admission.k8s.io/v1 AdmissionReview 705ab4f5 denied''"
    unfolding render_def e envelope_Kind k envelope_Response
    by (simp add: deny request_of_def)
  show ?thesis
    using deny evaluated_request_is_200 [where marshal = render, OF decoder_for_request h2 h3 h4 h5]
    by simp
qed

text \<open>
  C8. When the deserializer rejects the request body as an envelope, the status is 400;
  when the envelope decodes, names the pod resource, and the deserializer rejects the
  embedded object as a pod, the status is 500.
\<close>

theorem decode_failure_statuses:
  "(Header_Get (Header r) ''Content-Type'' = ''application/json''
      \<and> (case Body r of None \<Rightarrow> Inr [] | Some requestData \<Rightarrow> requestData) = Inr body
      \<and> decode_AdmissionReview d body = Inl err
    \<longrightarrow> fst (validatePod d m newResponseWriter r) = Returned
      \<and> rw_status (writer (snd (validatePod d m newResponseWriter r))) = Some 400)
   \<and> (admissionReviewFromRequest r' d' = (Inr rv, calls)
      \<and> Request rv = Some rq
      \<and> Request_Resource rq = podResource
      \<and> decode_Pod d' (Request_Object_Raw rq) = Inl err'
    \<longrightarrow> fst (validatePod d' m newResponseWriter r') = Returned
      \<and> rw_status (writer (snd (validatePod d' m newResponseWriter r'))) = Some 500)"
proof (intro conjI impI)
  assume a: "Header_Get (Header r) ''Content-Type'' = ''application/json''
      \<and> (case Body r of None \<Rightarrow> Inr [] | Some requestData \<Rightarrow> requestData) = Inr body
      \<and> decode_AdmissionReview d body = Inl err"
  then have "admissionReviewFromRequest r d = (Inl err, [DecodeAdmissionReview body])"
    by (simp add: admissionReviewFromRequest_def)
  then have v: "validatePod d m newResponseWriter r =
      (Returned,
       \<lparr>writer = \<lparr>rw_header = Map.empty, rw_status = Some 400,
                  rw_body = ''error getting admission review from request: '' @ err\<rparr>,
        decoded = [DecodeAdmissionReview body]\<rparr>)"
    by (simp add: validatePod_envelope_error error_reply)
  show "fst (validatePod d m newResponseWriter r) = Returned"
    by (simp add: v)
  show "rw_status (writer (snd (validatePod d m newResponseWriter r))) = Some 400"
    by (simp add: v)
next
  assume b: "admissionReviewFromRequest r' d' = (Inr rv, calls)
      \<and> Request rv = Some rq
      \<and> Request_Resource rq = podResource
      \<and> decode_Pod d' (Request_Object_Raw rq) = Inl err'"
  then have v: "validatePod d' m newResponseWriter r' =
      (Returned,
       \<lparr>writer = \<lparr>rw_header = Map.empty, rw_status = Some 500,
                  rw_body = ''error decoding raw pod: '' @ err'\<rparr>,
        decoded = calls @ [DecodePod (Request_Object_Raw rq)]\<rparr>)"
    by (simp add: validatePod_pod_error error_reply)
  show "fst (validatePod d' m newResponseWriter r') = Returned"
    by (simp add: v)
  show "rw_status (writer (snd (validatePod d' m newResponseWriter r'))) = Some 500"
    by (simp add: v)
qed

theorem decode_failure_statuses_witness:
  "rw_status (writer (snd (validatePod
       (decoder_without_pod (review_of ''admission.k8s.io/v1'' (Some (request_of podResource))))
       render newResponseWriter (json_request ''junk'')))) = Some 400
   \<and> rw_status (writer (snd (validatePod
       (decoder_without_pod (review_of ''admission.k8s.io/v1'' (Some (request_of podResource))))
       render newResponseWriter (json_request ''REVIEW'')))) = Some 500"
proof -
  let ?rq = "request_of podResource"
  let ?rv = "review_of ''admission.k8s.io/v1'' (Some ?rq)"
  let ?d = "decoder_without_pod ?rv"
  have a1: "Header_Get (Header (json_request ''junk'')) ''Content-Type'' = ''application/json''"
    by (simp add: json_request_def Header_Get_def)
  have a2: "(case Body (json_request ''junk'') of None \<Rightarrow> Inr []
             | Some requestData \<Rightarrow> requestData) = Inr ''junk''"
    by (simp add: json_request_def)
  have a3: "decode_AdmissionReview ?d ''junk'' = Inl ''json parse error''"
    by (simp add: decoder_without_pod_def table_decoder_def)
  have b2: "Request ?rv = Some ?rq"
    by (simp add: review_of_def)
  have b3: "Request_Resource ?rq = podResource"
    by (simp add: request_of_def)
  have b4: "decode_Pod ?d (Request_Object_Raw ?rq) = Inl ''json parse error''"
    by (simp add: request_of_def decoder_without_pod_def table_decoder_def)
  show ?thesis
    using decode_failure_statuses
      [of "json_request ''junk''" "''junk''" ?d "''json parse error''" render
          "json_request ''REVIEW''" ?d ?rv "[DecodeAdmissionReview ''REVIEW'']" ?rq
          "''json parse error''"]
      a1 a2 a3 decoder_without_pod_request [of ?rv] b2 b3 b4
    by simp
qed

section \<open>An envelope without a request\<close>

text \<open>
  C10. The claim is that the handler is safe on every body the deserializer accepts,
  also on one whose \<^verbatim>\<open>request\<close> member is absent. It is not: for such an envelope the
  handler panics on line 101, before anything is written to the response.
\<close>

theorem nil_request_panics:
  "validatePod (decoder_for (review_of ''admission.k8s.io/v1'' None) pod_without_hello)
     render newResponseWriter (json_request ''REVIEW'') =
     (Panicked,
      \<lparr>writer = \<lparr>rw_header = Map.empty, rw_status = None, rw_body = []\<rparr>,
       decoded = [DecodeAdmissionReview ''REVIEW'']\<rparr>)"
proof -
  have "Request (review_of ''admission.k8s.io/v1'' None) = None"
    by (simp add: review_of_def)
  then show ?thesis
    by (simp add: validatePod_nil_request [OF decoder_for_request] newResponseWriter_def)
qed

end
